theory Spec2Isabelle
  imports Complex_Main
begin

section \<open>Python values, exceptions and log records\<close>

text \<open>
  The program is one Python module, \<^verbatim>\<open>app.py\<close>. Its functions raise and catch
  exceptions, write to a logger, mutate a recorder object shared with a capture thread,
  talk to an HTTP endpoint and append to a text file. Each of these is an explicit part of
  the model: an exception is a value, the logger's output is a list of records, the
  recorder and its threads are a state record, and the network, the speech engine, the
  clock and the file system are parameters of the functions that use them.
\<close>

text \<open>JSON values, as \<^verbatim>\<open>response.json()\<close> returns them and as the request payload is built.\<close>

datatype json =
    JNull
  | JBool bool
  | JInt int
  | JFloat rat
  | JStr string
  | JArr "json list"
  | JObj "(string \<times> json) list"

text \<open>A subscript is a string key or an integer index.\<close>

datatype subscript = KStr string | KInt int

text \<open>
  Instances of \<^verbatim>\<open>Exception\<close>, one constructor per class that the module can meet:
  \<^verbatim>\<open>requests.HTTPError\<close> carries the status code of the response it was raised for, the
  lookup errors come from subscripting the decoded response, the other classes carry the
  message of the library that raised them.
\<close>

datatype py_exception =
    HTTPError nat
  | RequestException string
  | JSONDecodeError
  | KeyError subscript
  | IndexError
  | TypeError
  | OSError string
  | RuntimeError string
  | PortAudioError string
  | EngineError string

text \<open>The name of the exception's class, which is what an \<^verbatim>\<open>except\<close> clause can test.\<close>

fun exc_class :: "py_exception \<Rightarrow> string" where
  "exc_class (HTTPError _) = ''HTTPError''"
| "exc_class (RequestException _) = ''RequestException''"
| "exc_class JSONDecodeError = ''JSONDecodeError''"
| "exc_class (KeyError _) = ''KeyError''"
| "exc_class IndexError = ''IndexError''"
| "exc_class TypeError = ''TypeError''"
| "exc_class (OSError _) = ''OSError''"
| "exc_class (RuntimeError _) = ''RuntimeError''"
| "exc_class (PortAudioError _) = ''PortAudioError''"
| "exc_class (EngineError _) = ''EngineError''"

text \<open>
  A log record: the level, the fixed part of the message, and for the messages built as
  \<^verbatim>\<open>f"...: {e}"\<close> the exception that was formatted into it.
\<close>

datatype log_record =
    LogInfo string
  | LogWarning string
  | LogError string py_exception

section \<open>The recorder and its capture thread\<close>

text \<open>
  \<^verbatim>\<open>AudioRecorder\<close> holds the flag \<^verbatim>\<open>recording\<close> and the list \<^verbatim>\<open>frames\<close>.
  \<^verbatim>\<open>start_recording\<close> spawns a daemon thread running \<^verbatim>\<open>_record\<close>, which opens an
  input stream and then polls the flag, sleeping one second between polls; while the stream
  is open the audio driver calls \<^verbatim>\<open>_audio_callback\<close> for every chunk. A capture thread
  is therefore in one of three phases.
\<close>

datatype capture_thread = Spawned | Streaming | Exited

record 'c AudioRecorder =
  SAMPLE_RATE :: nat
  DURATION :: nat
  recording :: bool
  frames :: "'c list"
  threads :: "capture_thread list"
  logged :: "log_record list"

definition AudioRecorder_init :: "unit \<Rightarrow> 'c AudioRecorder" where
  "AudioRecorder_init _ =
     \<lparr>SAMPLE_RATE = 44100, DURATION = 5, recording = False, frames = [],
      threads = [], logged = []\<rparr>"

text \<open>
  \<^verbatim>\<open>start_recording\<close>: the flag is set and the buffer replaced before the thread is
  started; \<open>spawn\<close> is what \<^verbatim>\<open>threading.Thread(...).start()\<close> does (\<open>None\<close>: the thread
  runs; \<open>Some e\<close>: it raises \<open>e\<close>, which is logged and raised again). There is no test of
  the flag.
\<close>

definition start_recording ::
  "py_exception option \<Rightarrow> 'c AudioRecorder \<Rightarrow> (py_exception + unit) \<times> 'c AudioRecorder" where
  "start_recording spawn r =
     (let r1 = r\<lparr>recording := True\<rparr>;
          r2 = r1\<lparr>frames := []\<rparr>
      in case spawn of
           None \<Rightarrow>
             (Inr (), r2\<lparr>threads := threads r2 @ [Spawned],
                         logged := logged r2 @ [LogInfo ''Recording started successfully'']\<rparr>)
         | Some e \<Rightarrow>
             (Inl e, r2\<lparr>logged := logged r2 @ [LogError ''Failed to start recording: '' e]\<rparr>))"

text \<open>\<^verbatim>\<open>stop_recording\<close>: clears the flag and logs; no test, no join, nothing raised.\<close>

definition stop_recording :: "'c AudioRecorder \<Rightarrow> (py_exception + unit) \<times> 'c AudioRecorder" where
  "stop_recording r =
     (Inr (), r\<lparr>recording := False, logged := logged r @ [LogInfo ''Recording stopped'']\<rparr>)"

text \<open>
  \<^verbatim>\<open>_audio_callback\<close>: a truthy \<^verbatim>\<open>status\<close> is logged as a warning; the chunk is
  appended to whatever list \<^verbatim>\<open>self.frames\<close> is at that moment.
\<close>

definition audio_callback :: "'c \<Rightarrow> string option \<Rightarrow> 'c AudioRecorder \<Rightarrow> 'c AudioRecorder" where
  "audio_callback indata status r =
     (let r1 = (case status of
                  None \<Rightarrow> r
                | Some s \<Rightarrow> r\<lparr>logged := logged r @ [LogWarning s]\<rparr>)
      in r1\<lparr>frames := frames r1 @ [indata]\<rparr>)"

text \<open>
  The steps of the process, each one atomic:
  \<^item> \<open>CallStart spawn\<close> and \<open>CallStop\<close>: the control thread runs \<^verbatim>\<open>start_recording\<close>
    or \<^verbatim>\<open>stop_recording\<close> to its return;
  \<^item> \<open>Open i err\<close>: thread \<open>i\<close> enters \<^verbatim>\<open>with sd.InputStream(...)\<close>; with \<open>Some e\<close>
    the stream cannot be opened, the \<^verbatim>\<open>except\<close> clause of \<^verbatim>\<open>_record\<close> logs \<open>e\<close>
    and the thread ends;
  \<^item> \<open>Deliver i indata status\<close>: the driver calls \<^verbatim>\<open>_audio_callback\<close> on the open
    stream of thread \<open>i\<close>;
  \<^item> \<open>Poll i\<close>: thread \<open>i\<close> evaluates \<^verbatim>\<open>while self.recording\<close>: it sleeps again when the
    flag is set and leaves the \<^verbatim>\<open>with\<close> block, closing the stream, when it is not;
  \<^item> \<open>Fault i e\<close>: the body of the \<^verbatim>\<open>with\<close> block of thread \<open>i\<close> raises \<open>e\<close>, which the
    \<^verbatim>\<open>except\<close> clause of \<^verbatim>\<open>_record\<close> logs before the thread ends.
  A step that the state does not allow (a thread that does not exist, a callback on a
  stream that is not open) has no successor.
\<close>

datatype 'c event =
    CallStart "py_exception option"
  | CallStop
  | Open nat "py_exception option"
  | Deliver nat 'c "string option"
  | Poll nat
  | Fault nat py_exception

definition phase :: "'c AudioRecorder \<Rightarrow> nat \<Rightarrow> capture_thread option" where
  "phase r i = (if i < length (threads r) then Some (threads r ! i) else None)"

definition set_phase :: "nat \<Rightarrow> capture_thread \<Rightarrow> 'c AudioRecorder \<Rightarrow> 'c AudioRecorder" where
  "set_phase i p r = r\<lparr>threads := (threads r)[i := p]\<rparr>"

definition record_failed :: "nat \<Rightarrow> py_exception \<Rightarrow> 'c AudioRecorder \<Rightarrow> 'c AudioRecorder" where
  "record_failed i e r =
     set_phase i Exited (r\<lparr>logged := logged r @ [LogError ''Error during recording: '' e]\<rparr>)"

fun step :: "'c event \<Rightarrow> 'c AudioRecorder \<Rightarrow> 'c AudioRecorder option" where
  "step (CallStart spawn) r = Some (snd (start_recording spawn r))"
| "step CallStop r = Some (snd (stop_recording r))"
| "step (Open i err) r =
     (if phase r i = Some Spawned
      then (case err of
              None \<Rightarrow> Some (set_phase i Streaming r)
            | Some e \<Rightarrow> Some (record_failed i e r))
      else None)"
| "step (Deliver i indata status) r =
     (if phase r i = Some Streaming then Some (audio_callback indata status r) else None)"
| "step (Poll i) r =
     (if phase r i = Some Streaming
      then (if recording r then Some r else Some (set_phase i Exited r))
      else None)"
| "step (Fault i e) r =
     (if phase r i = Some Streaming then Some (record_failed i e r) else None)"

fun run :: "'c event list \<Rightarrow> 'c AudioRecorder \<Rightarrow> 'c AudioRecorder option" where
  "run [] r = Some r"
| "run (ev # evs) r = (case step ev r of None \<Rightarrow> None | Some r' \<Rightarrow> run evs r')"

section \<open>Subscripting a decoded response\<close>

text \<open>
  Raising is a value of a sum type, \<open>Inl\<close> the exception; \<open>then_try\<close> runs the next
  statement of a \<^verbatim>\<open>try\<close> block only when the one before it has not raised.
\<close>

definition then_try :: "py_exception + 'a \<Rightarrow> ('a \<Rightarrow> py_exception + 'b) \<Rightarrow> py_exception + 'b" where
  "then_try m f = (case m of Inl e \<Rightarrow> Inl e | Inr x \<Rightarrow> f x)"

text \<open>
  Python's indexing of a sequence: a negative index counts from the end, an index out of
  range raises \<^verbatim>\<open>IndexError\<close>.
\<close>

definition py_index :: "'a list \<Rightarrow> int \<Rightarrow> py_exception + 'a" where
  "py_index xs i =
     (if 0 \<le> i \<and> i < int (length xs) then Inr (xs ! nat i)
      else if i < 0 \<and> - int (length xs) \<le> i then Inr (xs ! nat (int (length xs) + i))
      else Inl IndexError)"

text \<open>
  \<^verbatim>\<open>v[k]\<close> on a decoded JSON value: a dict raises \<^verbatim>\<open>KeyError\<close> for a key it does not
  hold (an integer is never a key of a decoded JSON object), a list or a string indexed by
  a string raises \<^verbatim>\<open>TypeError\<close>, and \<^verbatim>\<open>None\<close>, booleans and numbers are not
  subscriptable.
\<close>

fun getitem :: "json \<Rightarrow> subscript \<Rightarrow> py_exception + json" where
  "getitem (JObj kvs) (KStr k) =
     (case map_of kvs k of None \<Rightarrow> Inl (KeyError (KStr k)) | Some v \<Rightarrow> Inr v)"
| "getitem (JObj kvs) (KInt i) = Inl (KeyError (KInt i))"
| "getitem (JArr xs) (KInt i) = py_index xs i"
| "getitem (JArr xs) (KStr k) = Inl TypeError"
| "getitem (JStr s) (KInt i) = then_try (py_index s i) (\<lambda>c. Inr (JStr [c]))"
| "getitem (JStr s) (KStr k) = Inl TypeError"
| "getitem JNull _ = Inl TypeError"
| "getitem (JBool _) _ = Inl TypeError"
| "getitem (JInt _) _ = Inl TypeError"
| "getitem (JFloat _) _ = Inl TypeError"

section \<open>The world outside the module\<close>

text \<open>
  What the pipeline leaves behind: the text files it wrote, the calls of
  \<^verbatim>\<open>requests.post\<close> it made, the records it logged and what it put on the page.
\<close>

record http_request =
  req_method :: string
  req_url :: string
  req_headers :: "(string \<times> string) list"
  req_json :: json

datatype ui_msg =
    StMarkdown string
  | StWrite json
  | StSuccess string
  | StError string "py_exception option"

record world =
  files :: "string \<rightharpoonup> string"
  requests :: "http_request list"
  logs :: "log_record list"
  page :: "ui_msg list"

definition logger :: "log_record \<Rightarrow> world \<Rightarrow> world" where
  "logger l w = w\<lparr>logs := logs w @ [l]\<rparr>"

definition st :: "ui_msg \<Rightarrow> world \<Rightarrow> world" where
  "st m w = w\<lparr>page := page w @ [m]\<rparr>"

text \<open>
  What the collaborators answer. The endpoint either cannot be reached (\<^verbatim>\<open>requests.post\<close>
  raises) or replies with a status code and a body, \<open>None\<close> when the body is not JSON.
  The speech engine fails at the import, at loading the model or at transcribing, or
  returns its result dict. The file system lets the append through, or fails at
  \<^verbatim>\<open>open\<close>, or at the \<open>k\<close>-th \<^verbatim>\<open>write\<close> (counted from 0) of the open file.
\<close>

record http_response =
  status_code :: nat
  body :: "json option"

datatype http_reply = Unreachable py_exception | Replied http_response

datatype whisper_run =
    ImportRaises py_exception
  | LoadRaises py_exception
  | TranscribeRaises py_exception
  | Transcribed "(string \<times> string) list"

datatype io_outcome = IoOk | OpenFails py_exception | WriteFails nat py_exception

record datetime =
  year :: nat
  month :: nat
  day :: nat
  hour :: nat
  minute :: nat
  second :: nat

record env =
  whisper :: "string \<Rightarrow> whisper_run"
  network :: "http_request \<Rightarrow> http_reply"
  clock :: datetime
  disk :: io_outcome

section \<open>The summarizer\<close>

record GroqAPI =
  api_key :: string
  base_url :: string

definition GroqAPI_init :: "string \<Rightarrow> GroqAPI" where
  "GroqAPI_init key = \<lparr>api_key = key, base_url = ''https://api.groq.com/openai''\<rparr>"

text \<open>
  The fixed part of the user message: the text of the f-string of \<^verbatim>\<open>summarize_text\<close>
  up to \<^verbatim>\<open>{text}\<close>, with its three line breaks and the indentation of the source lines
  that follow them.
\<close>

definition prompt_template :: string where
  "prompt_template =
     ''Please provide a concise summary of the following text: -MAIN TOPICS AND KEY POINTS\<newline>                     IMPORTANT CONCEPTS AND DEFINITIONS\<newline>                     -ANY SIGNIFICANT EXAMPLES MENTIONED\<newline>                     -KEY TAKEAWAYS\<newline>                     HERE IS THE TEXT''"

definition system_prompt :: string where
  "system_prompt = ''You are a helpful assistant that creates concise summaries.''"

definition summarize_headers :: "GroqAPI \<Rightarrow> (string \<times> string) list" where
  "summarize_headers self =
     [(''Authorization'', ''Bearer '' @ api_key self),
      (''Content-Type'', ''application/json'')]"

definition summarize_payload :: "string \<Rightarrow> json" where
  "summarize_payload text =
     JObj [(''model'', JStr ''mixtral-8x7b-32768''),
           (''messages'',
              JArr [JObj [(''role'', JStr ''system''), (''content'', JStr system_prompt)],
                    JObj [(''role'', JStr ''user''),
                          (''content'', JStr (prompt_template @ text))]]),
           (''temperature'', JFloat (7 / 10)),
           (''max_tokens'', JInt 500)]"

definition summarize_request :: "GroqAPI \<Rightarrow> string \<Rightarrow> http_request" where
  "summarize_request self text =
     \<lparr>req_method = ''POST'',
      req_url = base_url self @ ''/v1/chat/completions'',
      req_headers = summarize_headers self,
      req_json = summarize_payload text\<rparr>"

text \<open>
  \<^verbatim>\<open>Response.raise_for_status\<close> of the requests library raises \<^verbatim>\<open>HTTPError\<close> for the
  client and server error codes, 400 to 599, and returns for every other code.
\<close>

definition raise_for_status :: "http_response \<Rightarrow> py_exception + unit" where
  "raise_for_status response =
     (if 400 \<le> status_code response \<and> status_code response < 600
      then Inl (HTTPError (status_code response)) else Inr ())"

definition response_json :: "http_response \<Rightarrow> py_exception + json" where
  "response_json response =
     (case body response of None \<Rightarrow> Inl JSONDecodeError | Some j \<Rightarrow> Inr j)"

text \<open>
  The \<^verbatim>\<open>try\<close> block of \<^verbatim>\<open>summarize_text\<close> after the request is built: the one call of
  \<^verbatim>\<open>requests.post\<close>, the status check, and the four subscripts
  \<^verbatim>\<open>["choices"][0]["message"]["content"]\<close>.
\<close>

definition summarize_try :: "http_reply \<Rightarrow> py_exception + json" where
  "summarize_try reply =
     (case reply of
        Unreachable e \<Rightarrow> Inl e
      | Replied response \<Rightarrow>
          then_try (raise_for_status response) (\<lambda>_.
          then_try (response_json response) (\<lambda>j.
          then_try (getitem j (KStr ''choices'')) (\<lambda>choices.
          then_try (getitem choices (KInt 0)) (\<lambda>choice.
          then_try (getitem choice (KStr ''message'')) (\<lambda>message.
          getitem message (KStr ''content'')))))))"

text \<open>
  \<^verbatim>\<open>summarize_text\<close>: whatever the \<^verbatim>\<open>try\<close> block raises is logged and raised again,
  unchanged.
\<close>

definition summarize_text ::
  "(http_request \<Rightarrow> http_reply) \<Rightarrow> GroqAPI \<Rightarrow> string \<Rightarrow> world \<Rightarrow> (py_exception + json) \<times> world" where
  "summarize_text net self text w =
     (let request = summarize_request self text;
          w1 = w\<lparr>requests := requests w @ [request]\<rparr>
      in case summarize_try (net request) of
           Inl e \<Rightarrow> (Inl e, logger (LogError ''Error during summarization: '' e) w1)
         | Inr summary \<Rightarrow> (Inr summary, w1))"

section \<open>The transcriber\<close>

text \<open>The \<^verbatim>\<open>try\<close> block of \<^verbatim>\<open>transcribe_audio\<close>, ending in \<^verbatim>\<open>result["text"]\<close>.\<close>

definition transcribe_try :: "whisper_run \<Rightarrow> py_exception + string" where
  "transcribe_try run_result =
     (case run_result of
        ImportRaises e \<Rightarrow> Inl e
      | LoadRaises e \<Rightarrow> Inl e
      | TranscribeRaises e \<Rightarrow> Inl e
      | Transcribed result \<Rightarrow>
          (case map_of result ''text'' of
             None \<Rightarrow> Inl (KeyError (KStr ''text''))
           | Some t \<Rightarrow> Inr t))"

text \<open>\<^verbatim>\<open>transcribe_audio\<close>: every exception of the block is logged and turned into \<^verbatim>\<open>None\<close>.\<close>

definition transcribe_audio ::
  "(string \<Rightarrow> whisper_run) \<Rightarrow> string \<Rightarrow> world \<Rightarrow> (py_exception + string option) \<times> world" where
  "transcribe_audio engine audio_file w =
     (case transcribe_try (engine audio_file) of
        Inl e \<Rightarrow> (Inr None, logger (LogError ''Error during transcription: '' e) w)
      | Inr t \<Rightarrow> (Inr (Some t), w))"

section \<open>The notes log\<close>

text \<open>
  \<^verbatim>\<open>strftime("%Y-%m-%d %H:%M:%S")\<close> of a \<^verbatim>\<open>datetime\<close>: the year on four digits, the
  other fields on two, padded with zeros.
\<close>

definition digit :: "nat \<Rightarrow> char" where
  "digit n = ''0123456789'' ! (n mod 10)"

definition two_digits :: "nat \<Rightarrow> string" where
  "two_digits n = [digit (n div 10), digit n]"

definition four_digits :: "nat \<Rightarrow> string" where
  "four_digits n = [digit (n div 1000), digit (n div 100), digit (n div 10), digit n]"

definition strftime :: "datetime \<Rightarrow> string" where
  "strftime t =
     four_digits (year t) @ ''-'' @ two_digits (month t) @ ''-'' @ two_digits (day t) @ '' '' @
     two_digits (hour t) @ '':'' @ two_digits (minute t) @ '':'' @ two_digits (second t)"



text \<open>Opening a file in mode \<^verbatim>\<open>"a"\<close> creates it when absent; a write goes to its end.\<close>

definition contents :: "world \<Rightarrow> string \<Rightarrow> string" where
  "contents w filename = (case files w filename of None \<Rightarrow> [] | Some c \<Rightarrow> c)"

definition open_append :: "string \<Rightarrow> world \<Rightarrow> world" where
  "open_append filename w = w\<lparr>files := (files w)(filename \<mapsto> contents w filename)\<rparr>"

definition file_write :: "string \<Rightarrow> string \<Rightarrow> world \<Rightarrow> world" where
  "file_write filename data w = w\<lparr>files := (files w)(filename \<mapsto> contents w filename @ data)\<rparr>"

fun open_fault :: "io_outcome \<Rightarrow> py_exception option" where
  "open_fault (OpenFails e) = Some e"
| "open_fault _ = None"

fun write_fault :: "io_outcome \<Rightarrow> nat \<Rightarrow> py_exception option" where
  "write_fault (WriteFails k e) n = (if k = n then Some e else None)"
| "write_fault _ n = None"

text \<open>\<^verbatim>\<open>summary + "\n"\<close>: concatenation when \<^verbatim>\<open>summary\<close> is a string, \<^verbatim>\<open>TypeError\<close> otherwise.\<close>

fun py_add_str :: "json \<Rightarrow> string \<Rightarrow> py_exception + string" where
  "py_add_str (JStr s) t = Inr (s @ t)"
| "py_add_str _ t = Inl TypeError"

text \<open>
  \<^verbatim>\<open>save_summary\<close>: the timestamp is taken first, the file opened for appending, the
  header line and then the summary line written; an exception anywhere is logged and
  raised again, and what was written before it stays in the file.
\<close>

definition save_failed :: "py_exception \<Rightarrow> world \<Rightarrow> (py_exception + unit) \<times> world" where
  "save_failed e w = (Inl e, logger (LogError ''Failed to save summary: '' e) w)"

definition save_summary ::
  "io_outcome \<Rightarrow> datetime \<Rightarrow> json \<Rightarrow> string \<Rightarrow> world \<Rightarrow> (py_exception + unit) \<times> world" where
  "save_summary io now summary filename w =
     (let timestamp = strftime now
      in case open_fault io of
           Some e \<Rightarrow> save_failed e w
         | None \<Rightarrow>
             (let w1 = open_append filename w
              in case write_fault io 0 of
                   Some e \<Rightarrow> save_failed e w1
                 | None \<Rightarrow>
                     (let w2 = file_write filename
                                 (''\<newline>--- Summary from '' @ timestamp @ '' ---\<newline>'') w1
                      in case py_add_str summary ''\<newline>'' of
                           Inl e \<Rightarrow> save_failed e w2
                         | Inr line \<Rightarrow>
                             (case write_fault io 1 of
                                Some e \<Rightarrow> save_failed e w2
                              | None \<Rightarrow>
                                  (Inr (), logger (LogInfo (''Summary saved to '' @ filename))
                                             (file_write filename line w2))))))"

section \<open>The orchestration in \<open>main\<close>\<close>

text \<open>Python's truth value of an optional string: \<^verbatim>\<open>None\<close> and \<^verbatim>\<open>""\<close> are false.\<close>

fun truthy :: "string option \<Rightarrow> bool" where
  "truthy None = False"
| "truthy (Some s) = (s \<noteq> [])"

text \<open>
  The body of the button \<^verbatim>\<open>Transcribe and Summarize\<close>. The API key is a literal of
  \<^verbatim>\<open>main\<close>, a parameter here; \<^verbatim>\<open>save_summary\<close> is called with its default file name.
  \<open>summarize_and_save\<close> is the \<^verbatim>\<open>try\<close> block inside the branch
  \<^verbatim>\<open>if transcription:\<close>; the \<^verbatim>\<open>except\<close> clause that follows it in \<^verbatim>\<open>main\<close> catches
  what the summarizer and the notes log raise and shows it on the page. The spinners leave
  nothing on the page and are left out.
\<close>

definition summarize_and_save :: "env \<Rightarrow> string \<Rightarrow> string \<Rightarrow> world \<Rightarrow> (py_exception + unit) \<times> world" where
  "summarize_and_save e groq_api_key transcription w =
     (let groq = GroqAPI_init groq_api_key
      in case summarize_text (network e) groq transcription w of
           (Inl ex, w1) \<Rightarrow> (Inl ex, w1)
         | (Inr summary, w1) \<Rightarrow>
             (let w2 = st (StWrite summary) (st (StMarkdown ''### Summary'') w1)
              in case save_summary (disk e) (clock e) summary ''class_notes.txt'' w2 of
                   (Inl ex, w3) \<Rightarrow> (Inl ex, w3)
                 | (Inr _, w3) \<Rightarrow> (Inr (), st (StSuccess ''Summary saved to class_notes.txt'') w3)))"

definition transcribe_and_summarize ::
  "env \<Rightarrow> string \<Rightarrow> string \<Rightarrow> world \<Rightarrow> (py_exception + unit) \<times> world" where
  "transcribe_and_summarize e groq_api_key last_file w =
     (if groq_api_key = []
      then (Inr (), st (StError ''Please enter your Groq API key in the sidebar.'' None) w)
      else case transcribe_audio (whisper e) last_file w of
             (Inl ex, w1) \<Rightarrow> (Inl ex, w1)
           | (Inr transcription, w1) \<Rightarrow>
               (case (truthy transcription, transcription) of
                  (True, Some text) \<Rightarrow>
                    (let w2 = st (StWrite (JStr text)) (st (StMarkdown ''### Transcription'') w1)
                     in case summarize_and_save e groq_api_key text w2 of
                          (Inl ex, w3) \<Rightarrow>
                            (Inr (), st (StError ''Failed to generate summary: '' (Some ex)) w3)
                        | (Inr _, w3) \<Rightarrow> (Inr (), w3))
                | _ \<Rightarrow>
                    (Inr (), st (StError ''Transcription failed. Please try recording again.'' None)
                               w1)))"

section \<open>The notes-log entry as specified\<close>


section \<open>Concrete inputs\<close>

text \<open>
  A world in which nothing has happened yet, two readings of the clock, an endpoint that
  rejects every request with status 401, and the environment in which the speech engine
  has a given outcome.
\<close>

definition world0 :: world where
  "world0 = \<lparr>files = Map.empty, requests = [], logs = [], page = []\<rparr>"

definition nine_oh_three :: datetime where
  "nine_oh_three = \<lparr>year = 2024, month = 1, day = 5, hour = 9, minute = 3, second = 7\<rparr>"


definition unauthorized :: "http_request \<Rightarrow> http_reply" where
  "unauthorized _ = Replied \<lparr>status_code = 401, body = None\<rparr>"

definition env_of :: "whisper_run \<Rightarrow> env" where
  "env_of outcome =
     \<lparr>whisper = (\<lambda>_. outcome), network = unauthorized, clock = nine_oh_three, disk = IoOk\<rparr>"

section \<open>Facts about the recorder\<close>



text \<open>
  C1. The claim: once \<open>stop()\<close> has returned the buffer does not change any more. The run
  below is start, the stream opened, one chunk delivered, stop. When \<open>stop_recording\<close>
  returns the buffer holds that one chunk and the capture thread is still streaming, since
  it only looks at the flag at its next poll; a second chunk delivered before that poll is
  appended, so the buffer that held one frame at the return of \<open>stop_recording\<close> holds two
  when the capture thread ends.
\<close>

theorem stop_returns_before_capture_ends:
  "map_option (\<lambda>r. (recording r, threads r, frames r))
     (run [CallStart None, Open 0 None, Deliver 0 (1::nat) None, CallStop]
        (AudioRecorder_init ()))
     = Some (False, [Streaming], [1])
   \<and> map_option (\<lambda>r. (recording r, threads r, frames r))
     (run [CallStart None, Open 0 None, Deliver 0 (1::nat) None, CallStop, Deliver 0 2 None]
        (AudioRecorder_init ()))
     = Some (False, [Streaming], [1, 2])
   \<and> map_option (\<lambda>r. (recording r, threads r, frames r))
     (run [CallStart None, Open 0 None, Deliver 0 (1::nat) None, CallStop, Deliver 0 2 None,
           Poll 0]
        (AudioRecorder_init ()))
     = Some (False, [Exited], [1, 2])"
  by (simp add: AudioRecorder_init_def start_recording_def stop_recording_def
      audio_callback_def phase_def set_phase_def)

text \<open>
  C2, as stated, fails: \<open>start_recording\<close> on a recorder that is recording, with one frame
  in its buffer, returns normally and has emptied the buffer.
\<close>

theorem start_on_recording_counterexample:
  "fst (start_recording None
          ((AudioRecorder_init () :: nat AudioRecorder)\<lparr>recording := True, frames := [7]\<rparr>))
     = Inr ()
   \<and> frames (snd (start_recording None
          ((AudioRecorder_init () :: nat AudioRecorder)\<lparr>recording := True, frames := [7]\<rparr>)))
     = []"
  by (simp add: AudioRecorder_init_def start_recording_def)

text \<open>
  C2, amended. \<open>start_recording\<close> tests nothing: from every state of the recorder, one
  that is recording included, it sets the flag, empties the buffer and spawns a capture
  thread, and it returns normally when the thread starts. It raises only what starting the
  thread raises, after logging it, with the flag already set and the buffer already empty.
\<close>

theorem start_recording_unguarded:
  "start_recording None r =
     (Inr (), r\<lparr>recording := True, frames := [], threads := threads r @ [Spawned],
                logged := logged r @ [LogInfo ''Recording started successfully'']\<rparr>)
   \<and> start_recording (Some e) r =
     (Inl e, r\<lparr>recording := True, frames := [],
               logged := logged r @ [LogError ''Failed to start recording: '' e]\<rparr>)"
  by (simp add: start_recording_def)

text \<open>
  C3, as stated, fails: \<open>stop_recording\<close> on a recorder that has never been started
  returns normally.
\<close>

theorem stop_on_idle_counterexample:
  "recording (AudioRecorder_init () :: nat AudioRecorder) = False
   \<and> fst (stop_recording (AudioRecorder_init () :: nat AudioRecorder)) = Inr ()"
  by (simp add: AudioRecorder_init_def stop_recording_def)

text \<open>
  C3, amended. \<open>stop_recording\<close> never fails: in every state of the recorder it returns
  normally, with the flag cleared and the buffer and the capture threads as they were.
\<close>

theorem stop_recording_unguarded:
  "fst (stop_recording r) = Inr ()
   \<and> recording (snd (stop_recording r)) = False
   \<and> frames (snd (stop_recording r)) = frames r
   \<and> threads (snd (stop_recording r)) = threads r"
  by (simp add: stop_recording_def)




section \<open>Facts about the summarizer\<close>

lemma summarize_text_fst:
  "fst (summarize_text net self text w) = summarize_try (net (summarize_request self text))"
  by (simp add: summarize_text_def Let_def split: sum.splits)

lemma summarize_text_requests:
  "requests (snd (summarize_text net self text w)) = requests w @ [summarize_request self text]"
  by (simp add: summarize_text_def Let_def logger_def split: sum.splits)

text \<open>
  C6, as stated, fails: a reply with status 401 and a reply with status 500 raise
  exceptions of one and the same class, \<^verbatim>\<open>HTTPError\<close>, and a reply with status 200 whose
  body has no \<^verbatim>\<open>choices\<close> field raises a \<^verbatim>\<open>KeyError\<close>, which is of another class than
  the exception of the 500 reply.
\<close>

theorem summarize_errors_counterexample:
  "fst (summarize_text (\<lambda>_. Replied \<lparr>status_code = 401, body = None\<rparr>)
          (GroqAPI_init ''key'') ''text'' world0) = Inl (HTTPError 401)
   \<and> fst (summarize_text (\<lambda>_. Replied \<lparr>status_code = 500, body = None\<rparr>)
          (GroqAPI_init ''key'') ''text'' world0) = Inl (HTTPError 500)
   \<and> exc_class (HTTPError 401) = exc_class (HTTPError 500)
   \<and> fst (summarize_text (\<lambda>_. Replied \<lparr>status_code = 200, body = Some (JObj [])\<rparr>)
          (GroqAPI_init ''key'') ''text'' world0) = Inl (KeyError (KStr ''choices''))
   \<and> exc_class (KeyError (KStr ''choices'')) \<noteq> exc_class (HTTPError 500)"
  by (simp add: summarize_text_fst summarize_try_def then_try_def raise_for_status_def
      response_json_def)

text \<open>
  C6, amended. \<open>summarize_text\<close> logs and raises again, unchanged, whatever its
  \<^verbatim>\<open>try\<close> block raised: the exception of the HTTP library when the endpoint cannot be
  reached; an \<^verbatim>\<open>HTTPError\<close> carrying the status code for every reply with a status from
  400 to 599, 401 included; and, for a reply that passes the status check with a JSON
  object lacking the \<^verbatim>\<open>choices\<close> field, the \<^verbatim>\<open>KeyError\<close> of the lookup.
\<close>

theorem summarize_text_reraises:
  "(net (summarize_request self transcript) = Unreachable e \<longrightarrow>
      fst (summarize_text net self transcript w) = Inl e)
   \<and> (net (summarize_request self transcript) = Replied response \<longrightarrow>
        400 \<le> status_code response \<longrightarrow> status_code response < 600 \<longrightarrow>
      fst (summarize_text net self transcript w) = Inl (HTTPError (status_code response)))
   \<and> (net (summarize_request self transcript) = Replied response \<longrightarrow>
        \<not> (400 \<le> status_code response \<and> status_code response < 600) \<longrightarrow>
        body response = Some (JObj kvs) \<longrightarrow> map_of kvs ''choices'' = None \<longrightarrow>
      fst (summarize_text net self transcript w) = Inl (KeyError (KStr ''choices'')))
   \<and> (fst (summarize_text net self transcript w) = Inl e \<longrightarrow>
      logs (snd (summarize_text net self transcript w)) =
        logs w @ [LogError ''Error during summarization: '' e])"
  by (auto simp: summarize_text_def Let_def summarize_try_def then_try_def raise_for_status_def
      response_json_def logger_def split: sum.splits)

theorem summarize_text_reraises_witness:
  "fst (summarize_text (\<lambda>_. Unreachable (RequestException ''connection refused''))
          (GroqAPI_init ''key'') ''text'' world0) = Inl (RequestException ''connection refused'')
   \<and> logs (snd (summarize_text (\<lambda>_. Unreachable (RequestException ''connection refused''))
          (GroqAPI_init ''key'') ''text'' world0)) =
       [LogError ''Error during summarization: '' (RequestException ''connection refused'')]
   \<and> fst (summarize_text unauthorized (GroqAPI_init ''key'') ''text'' world0)
       = Inl (HTTPError 401)
   \<and> fst (summarize_text (\<lambda>_. Replied \<lparr>status_code = 200, body = Some (JObj [])\<rparr>)
          (GroqAPI_init ''key'') ''text'' world0) = Inl (KeyError (KStr ''choices''))"
  using summarize_text_reraises
          [where net = "\<lambda>_. Unreachable (RequestException ''connection refused'')"
             and self = "GroqAPI_init ''key''" and transcript = "''text''" and w = world0
             and e = "RequestException ''connection refused''"]
        summarize_text_reraises
          [where net = unauthorized and self = "GroqAPI_init ''key''" and transcript = "''text''"
             and w = world0 and response = "\<lparr>status_code = 401, body = None\<rparr>"]
        summarize_text_reraises
          [where net = "\<lambda>_. Replied \<lparr>status_code = 200, body = Some (JObj [])\<rparr>"
             and self = "GroqAPI_init ''key''" and transcript = "''text''" and w = world0
             and response = "\<lparr>status_code = 200, body = Some (JObj [])\<rparr>" and kvs = "[]"]
  by (simp add: unauthorized_def world0_def)

text \<open>
  C7. For every text, every key and every behaviour of the network, \<open>summarize_text\<close>
  makes exactly one call of \<^verbatim>\<open>requests.post\<close>: a POST to the base URL followed by
  \<^verbatim>\<open>/v1/chat/completions\<close>, with the bearer token and the JSON content type as headers,
  and a JSON body whose temperature is 0.7, whose \<^verbatim>\<open>max_tokens\<close> is 500 and whose messages
  are the system message and a user message made of the fixed template followed by the
  text, unchanged. The template names the four sections.
\<close>

theorem summarize_request_sent_once:
  "requests (snd (summarize_text net (GroqAPI_init key) text w)) =
     requests w @ [summarize_request (GroqAPI_init key) text]
   \<and> req_method (summarize_request (GroqAPI_init key) text) = ''POST''
   \<and> req_url (summarize_request (GroqAPI_init key) text) =
       ''https://api.groq.com/openai/v1/chat/completions''
   \<and> req_headers (summarize_request (GroqAPI_init key) text) =
       [(''Authorization'', ''Bearer '' @ key), (''Content-Type'', ''application/json'')]
   \<and> getitem (req_json (summarize_request (GroqAPI_init key) text)) (KStr ''temperature'') =
       Inr (JFloat (7 / 10))
   \<and> getitem (req_json (summarize_request (GroqAPI_init key) text)) (KStr ''max_tokens'') =
       Inr (JInt 500)
   \<and> getitem (req_json (summarize_request (GroqAPI_init key) text)) (KStr ''messages'') =
       Inr (JArr [JObj [(''role'', JStr ''system''),
                        (''content'',
                           JStr ''You are a helpful assistant that creates concise summaries.'')],
                  JObj [(''role'', JStr ''user''),
                        (''content'', JStr (prompt_template @ text))]])
   \<and> prompt_template =
       ''Please provide a concise summary of the following text: -'' @
       ''MAIN TOPICS AND KEY POINTS'' @ ''\<newline>                     '' @
       ''IMPORTANT CONCEPTS AND DEFINITIONS'' @ ''\<newline>                     -'' @
       ''ANY SIGNIFICANT EXAMPLES MENTIONED'' @ ''\<newline>                     -'' @
       ''KEY TAKEAWAYS'' @ ''\<newline>                     HERE IS THE TEXT''"
  by (simp add: summarize_text_requests summarize_request_def GroqAPI_init_def
      summarize_headers_def summarize_payload_def system_prompt_def prompt_template_def)

section \<open>Facts about the transcriber\<close>

text \<open>
  C8. \<open>transcribe_audio\<close> never raises. Whatever the engine raises, at the import, at
  loading the model or at transcribing, and a result without a text as well, is logged
  and answered with \<^verbatim>\<open>None\<close>; a result with a text is answered with that text.
\<close>

theorem transcribe_audio_never_raises:
  "\<not> isl (fst (transcribe_audio engine audio_file w))
   \<and> (engine audio_file = ImportRaises e \<or> engine audio_file = LoadRaises e
        \<or> engine audio_file = TranscribeRaises e \<longrightarrow>
      transcribe_audio engine audio_file w =
        (Inr None, w\<lparr>logs := logs w @ [LogError ''Error during transcription: '' e]\<rparr>))
   \<and> (transcribe_try (engine audio_file) = Inl e \<longrightarrow>
      transcribe_audio engine audio_file w =
        (Inr None, w\<lparr>logs := logs w @ [LogError ''Error during transcription: '' e]\<rparr>))
   \<and> (engine audio_file = Transcribed result \<longrightarrow> map_of result ''text'' = Some t \<longrightarrow>
      transcribe_audio engine audio_file w = (Inr (Some t), w))"
  by (auto simp: transcribe_audio_def transcribe_try_def logger_def
      split: sum.splits whisper_run.splits option.splits)

theorem transcribe_audio_never_raises_witness:
  "transcribe_audio (\<lambda>_. LoadRaises (EngineError ''model not found'')) ''recordings/a.wav'' world0
     = (Inr None,
        world0\<lparr>logs := [LogError ''Error during transcription: ''
                          (EngineError ''model not found'')]\<rparr>)
   \<and> transcribe_try (Transcribed [(''language'', ''en'')]) = Inl (KeyError (KStr ''text''))
   \<and> transcribe_audio (\<lambda>_. Transcribed [(''language'', ''en'')]) ''recordings/a.wav'' world0
     = (Inr None,
        world0\<lparr>logs := [LogError ''Error during transcription: '' (KeyError (KStr ''text''))]\<rparr>)
   \<and> transcribe_audio (\<lambda>_. Transcribed [(''text'', ''hello world'')]) ''recordings/a.wav'' world0
     = (Inr (Some ''hello world''), world0)"
  using transcribe_audio_never_raises
          [of "\<lambda>_. LoadRaises (EngineError ''model not found'')" "''recordings/a.wav''" world0
              "EngineError ''model not found''"]
        transcribe_audio_never_raises
          [of "\<lambda>_. Transcribed [(''language'', ''en'')]" "''recordings/a.wav''" world0
              "KeyError (KStr ''text'')"]
        transcribe_audio_never_raises
          [of "\<lambda>_. Transcribed [(''text'', ''hello world'')]" "''recordings/a.wav''" world0 _
              "[(''text'', ''hello world'')]" "''hello world''"]
  by (simp add: world0_def transcribe_try_def)

section \<open>Facts about the notes log\<close>







section \<open>Facts about the orchestration\<close>



text \<open>
  C10. With an API key present, a transcription that succeeds with the empty text is
  handled as a failed one: \<open>transcribe_audio\<close> answers the empty string, and the
  orchestration sends no request, writes no file and logs nothing; all it does is put the
  error \<^verbatim>\<open>Transcription failed. Please try recording again.\<close> on the page.
\<close>

theorem empty_transcript_is_failure:
  assumes "groq_api_key \<noteq> []" and "transcribe_try (whisper e last_file) = Inr []"
  shows "fst (transcribe_audio (whisper e) last_file w) = Inr (Some [])
         \<and> transcribe_and_summarize e groq_api_key last_file w =
            (Inr (), w\<lparr>page := page w @
                           [StError ''Transcription failed. Please try recording again.'' None]\<rparr>)"
  using assms by (simp add: transcribe_and_summarize_def transcribe_audio_def st_def)

theorem empty_transcript_is_failure_witness:
  "''key'' \<noteq> []
   \<and> transcribe_try (whisper (env_of (Transcribed [(''text'', [])])) ''recordings/a.wav'') = Inr []
   \<and> transcribe_and_summarize (env_of (Transcribed [(''text'', [])])) ''key''
        ''recordings/a.wav'' world0 =
      (Inr (), world0\<lparr>page := [StError ''Transcription failed. Please try recording again.''
                                   None]\<rparr>)"
proof -
  have key: "''key'' \<noteq> []" by simp
  have silent:
    "transcribe_try (whisper (env_of (Transcribed [(''text'', [])])) ''recordings/a.wav'') = Inr []"
    by (simp add: env_of_def transcribe_try_def)
  have "page world0 = []" by (simp add: world0_def)
  with empty_transcript_is_failure [OF key silent, of world0] key silent
  show ?thesis by simp
qed


end
